theory Spec2Isabelle
  imports Main
begin

section \<open>Python values, timestamps and errors\<close>

text \<open>
  The history cache of \<^verbatim>\<open>apps/predbat/history_cache.py\<close> stores whatever its fetch
  function hands it: lists of dictionaries, nested lists, strings in place of
  dictionaries. The value universe below is the JSON-like fragment of Python the
  code inspects with \<^verbatim>\<open>isinstance\<close>, truthiness and iteration. A dictionary is an
  association list (the first binding of a key is the one \<^verbatim>\<open>get\<close> returns).
\<close>

datatype pyval =
    PNone
  | PBool bool
  | PInt int
  | PStr string
  | PList "pyval list"
  | PDict "(string \<times> pyval) list"

text \<open>
  A \<^verbatim>\<open>datetime\<close> is an instant on a linear time axis, counted in ticks from
  \<^verbatim>\<open>datetime.min\<close>. All datetimes of one run are taken to be mutually comparable
  (all naive or all aware), which is what the comparisons of the source need in
  order not to raise.
\<close>

type_synonym datetime = nat

definition datetime_min :: datetime where
  "datetime_min = 0"

datatype error = TypeError | FetchError string

fun truthy :: "pyval \<Rightarrow> bool" where
  "truthy PNone = False"
| "truthy (PBool b) = b"
| "truthy (PInt n) = (n \<noteq> 0)"
| "truthy (PStr s) = (s \<noteq> [])"
| "truthy (PList xs) = (xs \<noteq> [])"
| "truthy (PDict kvs) = (kvs \<noteq> [])"

fun isinstance_dict :: "pyval \<Rightarrow> bool" where
  "isinstance_dict (PDict kvs) = True"
| "isinstance_dict v = False"

definition dict_get :: "(string \<times> pyval) list \<Rightarrow> string \<Rightarrow> pyval" where
  "dict_get kvs k = (case map_of kvs k of None \<Rightarrow> PNone | Some v \<Rightarrow> v)"

text \<open>
  \<^verbatim>\<open>for item in new_data\<close>: a list yields its elements, a string its characters, a
  dictionary its keys; iterating anything else raises \<^verbatim>\<open>TypeError\<close> (the value
  \<open>None\<close> here).
\<close>

fun py_iter :: "pyval \<Rightarrow> pyval list option" where
  "py_iter (PList xs) = Some xs"
| "py_iter (PStr s) = Some (map (\<lambda>c. PStr [c]) s)"
| "py_iter (PDict kvs) = Some (map (\<lambda>kv. PStr (fst kv)) kvs)"
| "py_iter v = None"

text \<open>\<^verbatim>\<open>str.lower\<close> on ASCII text.\<close>

definition lower_char :: "char \<Rightarrow> char" where
  "lower_char c =
     (case map_of (zip ''ABCDEFGHIJKLMNOPQRSTUVWXYZ'' ''abcdefghijklmnopqrstuvwxyz'') c of
        None \<Rightarrow> c
      | Some l \<Rightarrow> l)"

definition lower :: "string \<Rightarrow> string" where
  "lower s = map lower_char s"

section \<open>The cache\<close>

text \<open>
  \<^verbatim>\<open>self.cache_data: {entity_id: {"data": [history_items], "latest": datetime}}\<close>
  and the flag \<^verbatim>\<open>self.enabled\<close>. The re-entrant lock has no counterpart: the model
  is one sequential caller.
\<close>

record cache_entry =
  data :: "pyval list"
  latest :: "datetime option"

record history_cache =
  cache_data :: "string \<rightharpoonup> cache_entry"
  enabled :: bool

definition init :: history_cache where
  "init = \<lparr>cache_data = Map.empty, enabled = False\<rparr>"

definition configure :: "history_cache \<Rightarrow> bool \<Rightarrow> history_cache" where
  "configure c en =
     (if \<not> en then c\<lparr>enabled := en, cache_data := Map.empty\<rparr>
      else c\<lparr>enabled := en\<rparr>)"

subsection \<open>Timestamp extraction\<close>

text \<open>
  \<^verbatim>\<open>datetime.fromisoformat\<close> belongs to the Python library, not to the repository:
  it is the parameter \<open>fromiso\<close>, which returns \<open>None\<close> where the library raises
  \<^verbatim>\<open>ValueError\<close>. A truthy value that is not a string makes the library raise
  \<^verbatim>\<open>TypeError\<close>, which the source catches as well.
\<close>

fun get_timestamp :: "(string \<Rightarrow> datetime option) \<Rightarrow> pyval \<Rightarrow> datetime option" where
  "get_timestamp fromiso (PDict kvs) =
     (let timestamp_str = dict_get kvs ''last_changed''
      in if truthy timestamp_str
         then (case timestamp_str of PStr s \<Rightarrow> fromiso s | _ \<Rightarrow> None)
         else None)"
| "get_timestamp fromiso item = None"

subsection \<open>update_cache\<close>

text \<open>The nested-list shape \<^verbatim>\<open>[[items...]]\<close> loses one level.\<close>

fun unwrap_nested :: "pyval \<Rightarrow> pyval" where
  "unwrap_nested (PList (PList inner # rest)) = PList inner"
| "unwrap_nested new_data = new_data"

definition existing_timestamps :: "(string \<Rightarrow> datetime option) \<Rightarrow> pyval list \<Rightarrow> datetime set" where
  "existing_timestamps fromiso existing_data =
     set (map (\<lambda>item. the (get_timestamp fromiso item))
            (filter (\<lambda>item. isinstance_dict item \<and> get_timestamp fromiso item \<noteq> None)
               existing_data))"

text \<open>
  The \<^verbatim>\<open>for item in new_data\<close> loop. Its state is the list being appended to and
  \<^verbatim>\<open>latest_time\<close>; the set of existing timestamps is computed once before the
  loop and is not touched inside it.
\<close>

fun merge_items ::
  "(string \<Rightarrow> datetime option) \<Rightarrow> datetime set \<Rightarrow> pyval list \<Rightarrow>
   pyval list \<times> datetime option \<Rightarrow> pyval list \<times> datetime option" where
  "merge_items fromiso ex [] st = st"
| "merge_items fromiso ex (item # rest) (existing_data, latest_time) =
     (if \<not> isinstance_dict item then merge_items fromiso ex rest (existing_data, latest_time)
      else
        (case get_timestamp fromiso item of
           None \<Rightarrow> merge_items fromiso ex rest (existing_data, latest_time)
         | Some timestamp \<Rightarrow>
             if timestamp \<notin> ex
             then merge_items fromiso ex rest
                    (existing_data @ [item],
                     (case latest_time of
                        None \<Rightarrow> Some timestamp
                      | Some l \<Rightarrow> if timestamp > l then Some timestamp else Some l))
             else merge_items fromiso ex rest (existing_data, latest_time)))"

definition ts_key :: "(string \<Rightarrow> datetime option) \<Rightarrow> pyval \<Rightarrow> datetime" where
  "ts_key fromiso x = (case get_timestamp fromiso x of None \<Rightarrow> datetime_min | Some t \<Rightarrow> t)"

text \<open>
  The result is the exception raised, if any, and the cache afterwards. The only
  raise is the iteration of a truthy value that is not iterable; by then a missing
  entry has already been created. \<^verbatim>\<open>list.sort\<close> is stable, as \<open>sort_key\<close> is.
\<close>

definition update_cache ::
  "(string \<Rightarrow> datetime option) \<Rightarrow> history_cache \<Rightarrow> string \<Rightarrow> pyval \<Rightarrow> datetime \<Rightarrow>
   error option \<times> history_cache" where
  "update_cache fromiso c entity_id new_data end_time =
     (if \<not> enabled c \<or> \<not> truthy new_data then (None, c)
      else
        let new_data = unwrap_nested new_data;
            entity_key = lower entity_id;
            cache_entry = (case cache_data c entity_key of
                             None \<Rightarrow> \<lparr>data = [], latest = None\<rparr>
                           | Some e \<Rightarrow> e);
            existing_data = data cache_entry;
            ex = existing_timestamps fromiso existing_data;
            latest_time = latest cache_entry
        in (case py_iter new_data of
              None \<Rightarrow> (Some TypeError, c\<lparr>cache_data := (cache_data c)(entity_key \<mapsto> cache_entry)\<rparr>)
            | Some items \<Rightarrow>
                (case merge_items fromiso ex items (existing_data, latest_time) of
                   (existing_data', latest_time') \<Rightarrow>
                     (None,
                      c\<lparr>cache_data := (cache_data c)(entity_key \<mapsto>
                           \<lparr>data = sort_key (ts_key fromiso) existing_data',
                            latest = latest_time'\<rparr>)\<rparr>))))"

subsection \<open>get_or_fetch\<close>

text \<open>
  The fetch function is the caller's: a function of its three arguments that
  returns a value or raises. Its first argument is \<open>None\<close> when the entry's
  \<^verbatim>\<open>latest\<close> is. Every call the source makes is appended to a log, so that what
  \<^verbatim>\<open>get_or_fetch\<close> asked for can be stated.
\<close>

type_synonym fetch_call = "datetime option \<times> datetime \<times> bool"

type_synonym fetch_func = "datetime option \<Rightarrow> datetime \<Rightarrow> bool \<Rightarrow> error + pyval"

record outcome =
  result :: "error + pyval"
  cache :: history_cache
  calls :: "fetch_call list"

definition fetch_and_update ::
  "(string \<Rightarrow> datetime option) \<Rightarrow> history_cache \<Rightarrow> string \<Rightarrow> datetime \<Rightarrow> fetch_func \<Rightarrow> bool \<Rightarrow>
   datetime option \<Rightarrow> datetime \<Rightarrow> outcome" where
  "fetch_and_update fromiso c entity_id end_time fetch minimal fetch_start fetch_end =
     (case fetch fetch_start fetch_end minimal of
        Inl e \<Rightarrow> \<lparr>result = Inl e, cache = c, calls = [(fetch_start, fetch_end, minimal)]\<rparr>
      | Inr new_data \<Rightarrow>
          if truthy new_data
          then (case update_cache fromiso c entity_id new_data end_time of
                  (Some e, c') \<Rightarrow>
                    \<lparr>result = Inl e, cache = c', calls = [(fetch_start, fetch_end, minimal)]\<rparr>
                | (None, c') \<Rightarrow>
                    \<lparr>result = Inr new_data, cache = c', calls = [(fetch_start, fetch_end, minimal)]\<rparr>)
          else \<lparr>result = Inr new_data, cache = c, calls = [(fetch_start, fetch_end, minimal)]\<rparr>)"

text \<open>The \<^verbatim>\<open>while data\<close> loop that pops stale items off the front.\<close>

fun prune :: "(string \<Rightarrow> datetime option) \<Rightarrow> datetime \<Rightarrow> pyval list \<Rightarrow> pyval list" where
  "prune fromiso start_time [] = []"
| "prune fromiso start_time (x # xs) =
     (case get_timestamp fromiso x of
        Some ts \<Rightarrow> if ts < start_time then prune fromiso start_time xs else x # xs
      | None \<Rightarrow> x # xs)"

definition in_window :: "(string \<Rightarrow> datetime option) \<Rightarrow> datetime \<Rightarrow> pyval \<Rightarrow> bool" where
  "in_window fromiso end_time item =
     (case get_timestamp fromiso item of None \<Rightarrow> False | Some ts \<Rightarrow> ts \<le> end_time)"

text \<open>
  In the branch of an existing entry, \<^verbatim>\<open>cache_entry\<close> is the very object that
  \<^verbatim>\<open>update_cache\<close> mutates, so after the merge its fields are read from the cache
  as \<^verbatim>\<open>update_cache\<close> left it, and the prune is written back to the same key.
\<close>

definition get_or_fetch ::
  "(string \<Rightarrow> datetime option) \<Rightarrow> history_cache \<Rightarrow> string \<Rightarrow> datetime \<Rightarrow> datetime \<Rightarrow>
   fetch_func \<Rightarrow> bool \<Rightarrow> outcome" where
  "get_or_fetch fromiso c entity_id start_time end_time fetch minimal =
     (if \<not> enabled c
      then \<lparr>result = fetch (Some start_time) end_time minimal, cache = c,
            calls = [(Some start_time, end_time, minimal)]\<rparr>
      else
        let entity_key = lower entity_id
        in (case cache_data c entity_key of
              None \<Rightarrow>
                fetch_and_update fromiso c entity_id end_time fetch minimal (Some start_time) end_time
            | Some cache_entry \<Rightarrow>
                let latest_time = latest cache_entry;
                    r = fetch_and_update fromiso c entity_id end_time fetch minimal latest_time end_time
                in (case result r of
                      Inl e \<Rightarrow> r
                    | Inr fetched \<Rightarrow>
                        let c' = cache r;
                            cache_entry' = (case cache_data c' entity_key of
                                              None \<Rightarrow> cache_entry
                                            | Some e \<Rightarrow> e);
                            pruned = prune fromiso start_time (data cache_entry')
                        in \<lparr>result = Inr (PList (filter (in_window fromiso end_time) pruned)),
                            cache = c'\<lparr>cache_data :=
                                      (cache_data c')(entity_key \<mapsto> cache_entry'\<lparr>data := pruned\<rparr>)\<rparr>,
                            calls = calls r\<rparr>)))"

subsection \<open>A stand-in parser for running the model\<close>

text \<open>
  Every theorem below holds for any \<open>fromiso\<close>. To run the model on concrete
  records, \<open>digits\<close> reads a non-empty string of decimal digits as a tick count
  and rejects everything else.
\<close>

fun parse_digits :: "nat \<Rightarrow> string \<Rightarrow> nat option" where
  "parse_digits acc [] = Some acc"
| "parse_digits acc (ch # cs) =
     (let d = (of_char ch :: nat)
      in if 48 \<le> d \<and> d \<le> 57 then parse_digits (10 * acc + (d - 48)) cs else None)"

definition digits :: "string \<Rightarrow> datetime option" where
  "digits s = (if s = [] then None else parse_digits 0 s)"

definition rec_at :: "string \<Rightarrow> int \<Rightarrow> pyval" where
  "rec_at t v = PDict [(''last_changed'', PStr t), (''v'', PInt v)]"

subsection \<open>Concrete inputs\<close>

definition warm_cache :: history_cache where
  "warm_cache =
     \<lparr>cache_data = [''sensor.temp'' \<mapsto> \<lparr>data = [rec_at ''5'' 1, rec_at ''15'' 2], latest = Some 15\<rparr>],
      enabled = True\<rparr>"


definition malformed_batch :: "pyval list" where
  "malformed_batch =
     [PStr ''not-a-dict'', PDict [(''v'', PInt 1)], PDict [(''last_changed'', PStr ''yesterday'')],
      PDict [(''last_changed'', PInt 5)]]"



section \<open>Notions used in the statements\<close>

text \<open>
  The maximum timestamp among a list of items (\<open>None\<close> when no item carries one),
  sortedness by the key \<^verbatim>\<open>list.sort\<close> is given, the items of a batch that the loop
  appends, and the entry a merge leaves behind.
\<close>

fun opt_max :: "datetime option \<Rightarrow> datetime option \<Rightarrow> datetime option" where
  "opt_max None b = b"
| "opt_max (Some a) None = Some a"
| "opt_max (Some a) (Some b) = Some (max a b)"

fun max_ts :: "(string \<Rightarrow> datetime option) \<Rightarrow> pyval list \<Rightarrow> datetime option" where
  "max_ts fromiso [] = None"
| "max_ts fromiso (x # xs) = opt_max (get_timestamp fromiso x) (max_ts fromiso xs)"


definition accepted :: "(string \<Rightarrow> datetime option) \<Rightarrow> datetime set \<Rightarrow> pyval \<Rightarrow> bool" where
  "accepted fromiso ex item =
     (case get_timestamp fromiso item of None \<Rightarrow> False | Some t \<Rightarrow> t \<notin> ex)"

definition entry_or_new :: "history_cache \<Rightarrow> string \<Rightarrow> cache_entry" where
  "entry_or_new c k = (case cache_data c k of None \<Rightarrow> \<lparr>data = [], latest = None\<rparr> | Some e \<Rightarrow> e)"

definition merged_entry :: "(string \<Rightarrow> datetime option) \<Rightarrow> cache_entry \<Rightarrow> pyval list \<Rightarrow> cache_entry" where
  "merged_entry fromiso e items =
     (let new = filter (accepted fromiso (existing_timestamps fromiso (data e))) items
      in \<lparr>data = sort_key (ts_key fromiso) (data e @ new),
          latest = opt_max (latest e) (max_ts fromiso new)\<rparr>)"

section \<open>Facts about the merge\<close>



lemma opt_max_None_right [simp]: "opt_max a None = a"
  by (cases a) simp_all

lemma get_timestamp_dict: "get_timestamp fromiso x = Some t \<Longrightarrow> isinstance_dict x"
  by (cases x) simp_all

lemma existing_timestamps_iff:
  "t \<in> existing_timestamps fromiso xs \<longleftrightarrow> (\<exists>x\<in>set xs. get_timestamp fromiso x = Some t)"
  by (auto simp: existing_timestamps_def image_iff dest: get_timestamp_dict)

lemma merge_items_eq:
  "merge_items fromiso ex items (d, l) =
     (d @ filter (accepted fromiso ex) items,
      opt_max l (max_ts fromiso (filter (accepted fromiso ex) items)))"
proof (induction items arbitrary: d l)
  case Nil
  show ?case by simp
next
  case (Cons item rest)
  show ?case
  proof (cases "get_timestamp fromiso item")
    case None
    then show ?thesis using Cons by (simp add: accepted_def)
  next
    case (Some t)
    then have dict: "isinstance_dict item" by (rule get_timestamp_dict)
    show ?thesis
    proof (cases "t \<in> ex")
      case True
      then show ?thesis using Some dict Cons by (simp add: accepted_def)
    next
      case False
      have "opt_max (case l of None \<Rightarrow> Some t | Some l' \<Rightarrow> if l' < t then Some t else Some l') m
            = opt_max l (opt_max (Some t) m)" for m
        by (cases l; cases m) (auto simp: max_def)
      then show ?thesis using False Some dict Cons by (simp add: accepted_def)
    qed
  qed
qed

lemma update_cache_merge:
  assumes "enabled c" "truthy new_data" "py_iter (unwrap_nested new_data) = Some items"
  shows "update_cache fromiso c entity_id new_data end_time =
           (None, c\<lparr>cache_data := (cache_data c)(lower entity_id \<mapsto>
                     merged_entry fromiso (entry_or_new c (lower entity_id)) items)\<rparr>)"
  using assms
  by (simp add: update_cache_def Let_def merge_items_eq merged_entry_def entry_or_new_def)

lemma update_cache_noop:
  "\<not> enabled c \<or> \<not> truthy new_data \<Longrightarrow> update_cache fromiso c entity_id new_data end_time = (None, c)"
  by (simp add: update_cache_def)

lemma update_cache_raise:
  assumes "enabled c" "truthy new_data" "py_iter (unwrap_nested new_data) = None"
  shows "update_cache fromiso c entity_id new_data end_time =
           (Some TypeError, c\<lparr>cache_data := (cache_data c)(lower entity_id \<mapsto>
                     entry_or_new c (lower entity_id))\<rparr>)"
  using assms
  by (simp add: update_cache_def Let_def entry_or_new_def)






section \<open>Facts about fetching\<close>




section \<open>Facts about merged and pruned entries\<close>

lemma existing_timestamps_Nil [simp]: "existing_timestamps fromiso [] = {}"
  by (simp add: existing_timestamps_def)

lemma sorted_same_key: "\<forall>y\<in>set ys. f y = (k::nat) \<Longrightarrow> sorted (map f ys)"
  by (induction ys) auto

lemma accepted_not_existing:
  "accepted fromiso ex y \<Longrightarrow> get_timestamp fromiso y = Some ts \<Longrightarrow> ts \<notin> ex"
  by (simp add: accepted_def)

lemma data_merged_entry:
  "data (merged_entry fromiso e items) =
     sort_key (ts_key fromiso)
       (data e @ filter (accepted fromiso (existing_timestamps fromiso (data e))) items)"
  by (simp add: merged_entry_def Let_def)


lemma merged_entry_keeps_timestamp:
  assumes "x \<in> set (data e)" and "get_timestamp fromiso x = Some ts"
  shows "filter (\<lambda>y. get_timestamp fromiso y = Some ts) (data (merged_entry fromiso e items))
           = filter (\<lambda>y. get_timestamp fromiso y = Some ts) (data e)"
proof -
  let ?P = "\<lambda>y. get_timestamp fromiso y = Some ts"
  let ?new = "filter (accepted fromiso (existing_timestamps fromiso (data e))) items"
  have "ts \<in> existing_timestamps fromiso (data e)"
    using assms by (auto simp: existing_timestamps_iff)
  then have "filter ?P ?new = []"
    by (auto simp: filter_empty_conv dest: accepted_not_existing)
  then have app: "filter ?P (data e @ ?new) = filter ?P (data e)"
    by simp
  have "\<forall>y\<in>set (filter ?P (data e)). ts_key fromiso y = ts"
    by (simp add: ts_key_def)
  then have "sorted (map (ts_key fromiso) (filter ?P (data e)))"
    by (rule sorted_same_key)
  then have "sort_key (ts_key fromiso) (filter ?P (data e)) = filter ?P (data e)"
    by (rule sort_key_id_if_sorted)
  then show ?thesis
    by (simp add: data_merged_entry filter_sort app del: filter_append)
qed










text \<open>The definitions unfolded to run the model on concrete inputs.\<close>

lemmas run_defs =
  update_cache_def configure_def init_def lower_def lower_char_def rec_at_def warm_cache_def
  existing_timestamps_iff digits_def dict_get_def ts_key_def datetime_min_def Let_def
  merged_entry_def entry_or_new_def accepted_def

section \<open>The disabled cache\<close>

text \<open>
  C6. With the cache disabled, \<^verbatim>\<open>get_or_fetch\<close> calls the fetch function exactly once,
  with the caller's window and flag, returns what it returned (or raised) verbatim
  and leaves the whole cache state, the mapping and every entry, as it was.
\<close>

theorem disabled_get_or_fetch_passthrough:
  assumes "\<not> enabled c"
  shows "get_or_fetch fromiso c entity_id start_time end_time fetch minimal =
           \<lparr>result = fetch (Some start_time) end_time minimal, cache = c,
            calls = [(Some start_time, end_time, minimal)]\<rparr>"
  using assms by (simp add: get_or_fetch_def)

theorem disabled_get_or_fetch_passthrough_witness:
  "\<not> enabled init \<and>
   get_or_fetch digits init ''sensor.temp'' 0 10 (\<lambda>s e m. Inr (PList [rec_at ''5'' 1])) False =
     \<lparr>result = Inr (PList [rec_at ''5'' 1]), cache = init, calls = [(Some 0, 10, False)]\<rparr>"
  using disabled_get_or_fetch_passthrough
          [of init digits "''sensor.temp''" 0 10 "\<lambda>s e m. Inr (PList [rec_at ''5'' 1])" False]
  by (simp add: init_def)

section \<open>Fetch failures\<close>



section \<open>The first request for an entity\<close>



section \<open>A later request for the same entity\<close>



section \<open>The nested-list shape\<close>

text \<open>
  C8. Given a list whose first element is a list, \<^verbatim>\<open>update_cache\<close> merges the items
  of that first element, exactly as they are, and ignores the rest: one level is
  unwrapped and no more. On \<^verbatim>\<open>[[r]]\<close>, with \<open>r\<close> a record that carries a timestamp
  and no entry yet, the entry holds exactly \<open>r\<close>; on \<^verbatim>\<open>[[[r]]]\<close> the item met by the
  loop is the list \<^verbatim>\<open>[r]\<close>, which is not a dictionary, and nothing is stored.
\<close>

theorem update_cache_unwraps_one_level:
  assumes "enabled c"
  shows "update_cache fromiso c entity_id (PList (PList inner # rest)) end_time =
           (None, c\<lparr>cache_data := (cache_data c)(lower entity_id \<mapsto>
                     merged_entry fromiso (entry_or_new c (lower entity_id)) inner)\<rparr>) \<and>
         (cache_data c (lower entity_id) = None \<and> get_timestamp fromiso r = Some ts \<longrightarrow>
            cache_data (snd (update_cache fromiso c entity_id (PList [PList [r]]) end_time))
              (lower entity_id) = Some \<lparr>data = [r], latest = Some ts\<rparr> \<and>
            cache_data (snd (update_cache fromiso c entity_id (PList [PList [PList [r]]]) end_time))
              (lower entity_id) = Some \<lparr>data = [], latest = None\<rparr>)"
proof -
  have gen: "update_cache fromiso c entity_id (PList (PList xs # ys)) end_time =
           (None, c\<lparr>cache_data := (cache_data c)(lower entity_id \<mapsto>
                     merged_entry fromiso (entry_or_new c (lower entity_id)) xs)\<rparr>)" for xs ys
    by (rule update_cache_merge [OF assms]) simp_all
  show ?thesis
    by (simp add: gen merged_entry_def entry_or_new_def accepted_def)
qed

theorem update_cache_unwraps_one_level_witness:
  "enabled (configure init True) \<and>
   cache_data (configure init True) (lower ''Sensor.Temp'') = None \<and>
   get_timestamp digits (rec_at ''10'' 1) = Some 10 \<and>
   cache_data (snd (update_cache digits (configure init True) ''Sensor.Temp''
                      (PList [PList [rec_at ''10'' 1]]) 10)) ''sensor.temp''
     = Some \<lparr>data = [rec_at ''10'' 1], latest = Some 10\<rparr> \<and>
   cache_data (snd (update_cache digits (configure init True) ''Sensor.Temp''
                      (PList [PList [PList [rec_at ''10'' 1]]]) 10)) ''sensor.temp''
     = Some \<lparr>data = [], latest = None\<rparr>"
  using update_cache_unwraps_one_level [of "configure init True" digits "''Sensor.Temp''"
          "[rec_at ''10'' 1]" "[]" 10 "rec_at ''10'' 1" 10]
  by (simp add: run_defs)

section \<open>A timestamp that is already stored\<close>

text \<open>
  C9. If the entry already stores an item with timestamp \<open>ts\<close>, then after
  \<^verbatim>\<open>update_cache\<close>, whatever the new data, the stored items with that timestamp are
  the same items as before, in the same order: a new item with that timestamp is
  dropped even when its other fields differ, and nothing stored is replaced.
\<close>

theorem update_cache_never_replaces:
  assumes "enabled c" and "cache_data c (lower entity_id) = Some entry"
    and "x \<in> set (data entry)" and "get_timestamp fromiso x = Some ts"
  shows "\<exists>entry'.
           cache_data (snd (update_cache fromiso c entity_id new_data end_time)) (lower entity_id)
             = Some entry' \<and>
           filter (\<lambda>y. get_timestamp fromiso y = Some ts) (data entry')
             = filter (\<lambda>y. get_timestamp fromiso y = Some ts) (data entry)"
proof (cases "truthy new_data")
  case False
  then show ?thesis using assms(2) by (simp add: update_cache_noop)
next
  case True
  show ?thesis
  proof (cases "py_iter (unwrap_nested new_data)")
    case None
    show ?thesis
      using assms(2) by (simp add: update_cache_raise [OF assms(1) True None] entry_or_new_def)
  next
    case (Some items)
    show ?thesis
      using assms(2) merged_entry_keeps_timestamp [OF assms(3,4)]
      by (simp add: update_cache_merge [OF assms(1) True Some] entry_or_new_def)
  qed
qed

theorem update_cache_never_replaces_witness:
  "enabled warm_cache \<and>
   cache_data warm_cache (lower ''Sensor.Temp'')
     = Some \<lparr>data = [rec_at ''5'' 1, rec_at ''15'' 2], latest = Some 15\<rparr> \<and>
   rec_at ''15'' 2 \<in> set [rec_at ''5'' 1, rec_at ''15'' 2] \<and>
   get_timestamp digits (rec_at ''15'' 2) = Some 15 \<and>
   get_timestamp digits (rec_at ''15'' 9) = Some 15 \<and>
   cache_data (snd (update_cache digits warm_cache ''Sensor.Temp''
                      (PList [rec_at ''15'' 9, rec_at ''25'' 3]) 30)) ''sensor.temp''
     = Some \<lparr>data = [rec_at ''5'' 1, rec_at ''15'' 2, rec_at ''25'' 3], latest = Some 25\<rparr>"
  using update_cache_never_replaces [of warm_cache "''Sensor.Temp''"
          "\<lparr>data = [rec_at ''5'' 1, rec_at ''15'' 2], latest = Some 15\<rparr>" "rec_at ''15'' 2"
          digits 15 "PList [rec_at ''15'' 9, rec_at ''25'' 3]" 30]
  by (simp add: run_defs)

section \<open>Batches of malformed items\<close>

text \<open>
  C10, as amended. With the cache enabled and no entry for the entity,
  \<^verbatim>\<open>update_cache\<close> on a non-empty list whose items, after the one-level unwrap of a
  leading nested list, are all malformed (not a dictionary, or without a parseable
  timestamp) creates the entry under the lower-cased key, with an empty stored
  sequence and no \<^verbatim>\<open>latest\<close>.
\<close>

theorem update_cache_only_malformed:
  assumes "enabled c" and "cache_data c (lower entity_id) = None"
    and "items \<noteq> []"
    and "py_iter (unwrap_nested (PList items)) = Some unwrapped"
    and "\<forall>x\<in>set unwrapped. get_timestamp fromiso x = None"
  shows "update_cache fromiso c entity_id (PList items) end_time =
           (None, c\<lparr>cache_data := (cache_data c)(lower entity_id \<mapsto> \<lparr>data = [], latest = None\<rparr>)\<rparr>)"
proof -
  have "filter (accepted fromiso {}) unwrapped = []"
    using assms(5) by (auto simp: filter_empty_conv accepted_def)
  then show ?thesis
    using assms(2,3)
    by (simp add: update_cache_merge [OF assms(1) _ assms(4)] merged_entry_def entry_or_new_def)
qed

theorem update_cache_only_malformed_witness:
  "enabled (configure init True) \<and>
   cache_data (configure init True) (lower ''Sensor.Temp'') = None \<and>
   malformed_batch \<noteq> [] \<and>
   py_iter (unwrap_nested (PList malformed_batch)) = Some malformed_batch \<and>
   list_all (\<lambda>x. get_timestamp digits x = None) malformed_batch \<and>
   cache_data (snd (update_cache digits (configure init True) ''Sensor.Temp''
                      (PList malformed_batch) 10)) ''sensor.temp''
     = Some \<lparr>data = [], latest = None\<rparr>"
  using update_cache_only_malformed [of "configure init True" "''Sensor.Temp''" malformed_batch
          malformed_batch digits 10]
  by (simp add: run_defs malformed_batch_def)

text \<open>
  As the claim is written it fails: the list \<^verbatim>\<open>[r]\<close> is not a dictionary, so
  \<^verbatim>\<open>[[r]]\<close> consists of one malformed item only, and yet \<open>r\<close> is stored.
\<close>

theorem nested_batch_is_merged_counterexample:
  "enabled (configure init True) \<and>
   cache_data (configure init True) (lower ''Sensor.Temp'') = None \<and>
   [PList [rec_at ''10'' 1]] \<noteq> [] \<and>
   \<not> isinstance_dict (PList [rec_at ''10'' 1]) \<and>
   get_timestamp digits (PList [rec_at ''10'' 1]) = None \<and>
   cache_data (snd (update_cache digits (configure init True) ''Sensor.Temp''
                      (PList [PList [rec_at ''10'' 1]]) 10)) ''sensor.temp''
     = Some \<lparr>data = [rec_at ''10'' 1], latest = Some 10\<rparr>"
  by (simp add: run_defs)

section \<open>Merging the same data twice\<close>



section \<open>Order and the latest timestamp\<close>




section \<open>Duplicate timestamps within one batch\<close>

text \<open>
  C2. The set of existing timestamps is built before the loop and is not extended
  as items are appended. With the cache enabled and no entry for the entity, a
  batch of two records that share a timestamp is therefore stored whole: after the
  merge the entry holds two items with one timestamp.
\<close>

theorem update_cache_stores_batch_duplicates:
  assumes "enabled c" and "cache_data c (lower entity_id) = None"
    and "get_timestamp fromiso r1 = Some ts" and "get_timestamp fromiso r2 = Some ts"
  shows "cache_data (snd (update_cache fromiso c entity_id (PList [r1, r2]) end_time)) (lower entity_id)
           = Some \<lparr>data = [r1, r2], latest = Some ts\<rparr>"
proof -
  obtain kvs where "r1 = PDict kvs"
    using assms(3) by (cases r1) simp_all
  then have it: "py_iter (unwrap_nested (PList [r1, r2])) = Some [r1, r2]"
    by simp
  have t: "truthy (PList [r1, r2])"
    by simp
  show ?thesis
    using assms(2,3,4)
    by (simp add: update_cache_merge [OF assms(1) t it] merged_entry_def entry_or_new_def
          accepted_def ts_key_def)
qed

theorem update_cache_stores_batch_duplicates_witness:
  "enabled (configure init True) \<and>
   cache_data (configure init True) (lower ''Sensor.Temp'') = None \<and>
   get_timestamp digits (rec_at ''5'' 1) = Some 5 \<and>
   get_timestamp digits (rec_at ''5'' 2) = Some 5 \<and>
   rec_at ''5'' 1 \<noteq> rec_at ''5'' 2 \<and>
   cache_data (snd (update_cache digits (configure init True) ''Sensor.Temp''
                      (PList [rec_at ''5'' 1, rec_at ''5'' 2]) 10)) ''sensor.temp''
     = Some \<lparr>data = [rec_at ''5'' 1, rec_at ''5'' 2], latest = Some 5\<rparr>"
  using update_cache_stores_batch_duplicates [of "configure init True" "''Sensor.Temp''" digits
          "rec_at ''5'' 1" 5 "rec_at ''5'' 2" 10]
  by (simp add: run_defs)

end
